theory Spec2Isabelle
  imports Main "HOL-Library.Word"
begin

unbundle bit_operations_syntax

section \<open>The TBTN A1/A2 button driver (tbtn\_driver.c)\<close>

text \<open>
  A shallow embedding of \<^verbatim>\<open>src/tbtn_driver.c\<close>: the static keymap table, the ACPI
  notification handler \<^verbatim>\<open>tbtn_notify_handler\<close> and the bind callback \<^verbatim>\<open>tbtn_add\<close>.

  The driver runs under the Linux kernel. Every kernel function the driver calls is a
  field of the record \<open>kernel\<close> below: the driver's functions take the kernel as a
  parameter, so every theorem holds for whatever these functions answer. Every call the
  driver makes is written, with its arguments and its answer, to a list of \<open>action\<close>s,
  in the order of the calls: this list is what the driver does to the world around it.
\<close>

subsection \<open>Data\<close>

type_synonym u16 = "16 word"
type_synonym u32 = "32 word"
type_synonym u64 = "64 word"

text \<open>\<^verbatim>\<open>acpi_handle\<close> is an opaque pointer; \<^verbatim>\<open>acpi_status\<close> is a \<^verbatim>\<open>u32\<close>.\<close>

type_synonym acpi_handle = nat
type_synonym acpi_status = u32

text \<open>
  \<^verbatim>\<open>struct key_entry { int type; u32 code; union { u16 keycode; ... }; }\<close> of
  \<^verbatim>\<open>linux/input/sparse-keymap.h\<close>, with the entry types of that header.
\<close>

datatype ke_type = KE_END | KE_KEY | KE_SW | KE_VSW | KE_IGNORE

record key_entry =
  ke_type :: ke_type
  code :: u32
  keycode :: u16

text \<open>Key codes and the bus type, from \<^verbatim>\<open>linux/input-event-codes.h\<close> and \<^verbatim>\<open>linux/input.h\<close>.\<close>

definition KEY_PROG1 :: u16 where
  "KEY_PROG1 = 148"

definition KEY_PROG2 :: u16 where
  "KEY_PROG2 = 149"

definition BUS_HOST :: u16 where
  "BUS_HOST = 0x19"

definition ENOMEM :: int where
  "ENOMEM = 12"

text \<open>
  \<^verbatim>\<open>struct input_dev\<close>: the fields the driver writes, and the address of the object the
  kernel allocated.
\<close>

record input_dev =
  addr :: nat
  name :: string
  phys :: string
  bustype :: u16

text \<open>\<^verbatim>\<open>struct tbtn_dev\<close>; a null \<^verbatim>\<open>input_dev\<close> pointer is \<open>None\<close>.\<close>

record tbtn_dev =
  handle :: acpi_handle
  input_dev :: "input_dev option"

text \<open>
  \<^verbatim>\<open>struct acpi_device\<close>: its firmware handle, its hardware id (only logged) and the
  \<^verbatim>\<open>driver_data\<close> pointer, \<open>None\<close> when null. \<^verbatim>\<open>acpi_driver_data(device)\<close> reads it.
\<close>

record acpi_device =
  handle :: acpi_handle
  hid :: string
  driver_data :: "tbtn_dev option"

subsection \<open>The keymap table\<close>

text \<open>
  \<^verbatim>\<open>tbtn_keymap\<close> (lines 21 to 27). The sentinel \<^verbatim>\<open>{KE_END, 0}\<close> leaves the union
  zero-initialised.
\<close>

definition tbtn_keymap :: "key_entry list" where
  "tbtn_keymap =
    [\<lparr>ke_type = KE_KEY, code = 57, keycode = KEY_PROG1\<rparr>,
     \<lparr>ke_type = KE_KEY, code = 67, keycode = KEY_PROG2\<rparr>,
     \<lparr>ke_type = KE_END, code = 0, keycode = 0\<rparr>]"

text \<open>
  Modelled from the spec: the lookup of the host's sparse-keymap helper, which is kernel
  code and not in this repository. The spec calls the table an association from a raw
  code to a symbolic key, terminated by a sentinel: the lookup walks the table up to the
  sentinel and answers the first entry with the raw code asked for.
\<close>

fun keymap_entry_from_scancode :: "key_entry list \<Rightarrow> u32 \<Rightarrow> key_entry option" where
  "keymap_entry_from_scancode [] c = None"
| "keymap_entry_from_scancode (ke # kes) c =
     (if ke_type ke = KE_END then None
      else if code ke = c then Some ke
      else keymap_entry_from_scancode kes c)"

text \<open>The entries of a table in front of its sentinel.\<close>

fun keymap_entries :: "key_entry list \<Rightarrow> key_entry list" where
  "keymap_entries [] = []"
| "keymap_entries (ke # kes) =
     (if ke_type ke = KE_END then [] else ke # keymap_entries kes)"

subsection \<open>The kernel and the driver's calls\<close>

text \<open>
  The kernel functions the driver calls. \<open>acpi_evaluate_integer\<close> answers a status and
  the value it wrote through the out-pointer (read by the driver only after success).
  \<open>devm_kzalloc\<close> answers whether the allocation succeeded, and
  \<open>devm_input_allocate_device\<close> the new device or null.
\<close>

record kernel =
  acpi_evaluate_integer :: "acpi_handle \<Rightarrow> string \<Rightarrow> acpi_status \<times> u64"
  acpi_format_exception :: "acpi_status \<Rightarrow> string"
  sparse_keymap_report_event :: "input_dev \<Rightarrow> u32 \<Rightarrow> int \<Rightarrow> bool \<Rightarrow> bool"
  devm_kzalloc :: bool
  devm_input_allocate_device :: "input_dev option"
  sparse_keymap_setup :: "input_dev \<Rightarrow> key_entry list \<Rightarrow> int"
  input_register_device :: "input_dev \<Rightarrow> int"

text \<open>\<^verbatim>\<open>ACPI_FAILURE(a)\<close> is \<^verbatim>\<open>(a) != AE_OK\<close>, and \<^verbatim>\<open>AE_OK\<close> is 0.\<close>

definition ACPI_FAILURE :: "acpi_status \<Rightarrow> bool" where
  "ACPI_FAILURE a \<longleftrightarrow> a \<noteq> 0"

datatype loglevel = KERN_ERR | KERN_WARNING | KERN_INFO

text \<open>The arguments of a format string: \<^verbatim>\<open>%llx\<close>, \<^verbatim>\<open>%x\<close>, \<^verbatim>\<open>%u\<close>, \<^verbatim>\<open>%d\<close>, \<^verbatim>\<open>%s\<close>.\<close>

datatype fmt_arg = Arg_llx u64 | Arg_x u32 | Arg_u u32 | Arg_d int | Arg_s string

text \<open>
  One call into the kernel, with its arguments and (last) its answer. \<open>Printk\<close> stands
  for \<^verbatim>\<open>pr_err\<close>, \<^verbatim>\<open>pr_warn\<close> and \<^verbatim>\<open>pr_info\<close>; format strings are written without
  their line terminator.
\<close>

datatype action =
    Printk loglevel string "fmt_arg list"
  | Acpi_evaluate_integer acpi_handle string acpi_status u64
  | Sparse_keymap_report_event input_dev u32 int bool bool
  | Devm_kzalloc bool
  | Devm_input_allocate_device "input_dev option"
  | Sparse_keymap_setup input_dev "key_entry list" int
  | Input_register_device input_dev int

subsection \<open>The notification decoder\<close>

text \<open>Line 68: \<^verbatim>\<open>key_value = (unsigned int)(hinf_result & 0x7F)\<close>.\<close>

definition key_value_of :: "u64 \<Rightarrow> u32" where
  "key_value_of hinf_result = ucast (hinf_result AND 0x7F)"

text \<open>Line 69: \<^verbatim>\<open>key_event_type = (unsigned int)(hinf_result & 0x80)\<close>.\<close>

definition key_event_type_of :: "u64 \<Rightarrow> u32" where
  "key_event_type_of hinf_result = ucast (hinf_result AND 0x80)"

text \<open>
  Lines 74 to 98: the switch on \<^verbatim>\<open>key_value\<close>. It answers
  \<^verbatim>\<open>(report_key_value, event_type_to_report)\<close> as the four cases set them, and
  \<open>None\<close> where the default case returns from the handler.
\<close>

definition key_switch :: "u32 \<Rightarrow> (u32 \<times> int) option" where
  "key_switch key_value =
     (if key_value = 57 then Some (57, 1)
      else if key_value = 56 then Some (57, 0)
      else if key_value = 67 then Some (67, 1)
      else if key_value = 66 then Some (67, 0)
      else None)"

text \<open>
  The decoder of the spec: lines 68 to 98 on a raw status value. \<^verbatim>\<open>key_event_type\<close> is
  computed and never read, as in the source.
\<close>

definition hinf_decode :: "u64 \<Rightarrow> (u32 \<times> int) option" where
  "hinf_decode hinf_result =
     (let key_value = key_value_of hinf_result;
          key_event_type = key_event_type_of hinf_result
      in key_switch key_value)"

subsection \<open>The notification handler\<close>

text \<open>
  \<^verbatim>\<open>tbtn_notify_handler\<close> (lines 30 to 120). It answers the device as the handler leaves
  it and the calls it made. The handler writes to no field of the device or of its
  context.
\<close>

definition tbtn_notify_handler ::
  "kernel \<Rightarrow> acpi_device \<Rightarrow> u32 \<Rightarrow> acpi_device \<times> action list" where
  "tbtn_notify_handler k device event =
     (case driver_data device of
        None \<Rightarrow>
          (device, [Printk KERN_WARNING ''tbtn: Received notify for uninitialized device'' []])
      | Some tbtn \<Rightarrow>
         (case input_dev tbtn of
            None \<Rightarrow>
              (device, [Printk KERN_WARNING ''tbtn: Received notify for uninitialized device'' []])
          | Some idev \<Rightarrow>
              if event = 0x80 then
                (let (status, hinf_result) =
                       acpi_evaluate_integer k (tbtn_dev.handle tbtn) ''HINF''
                 in (device,
                   Printk KERN_INFO ''tbtn: Notify 0x80 received'' [] #
                   Acpi_evaluate_integer (tbtn_dev.handle tbtn) ''HINF'' status hinf_result #
                   (if ACPI_FAILURE status then
                      [Printk KERN_ERR ''tbtn: Failed to evaluate HINF: %s''
                         [Arg_s (acpi_format_exception k status)]]
                    else
                      Printk KERN_INFO ''tbtn: HINF returned 0x%llx'' [Arg_llx hinf_result] #
                      (case hinf_decode hinf_result of
                         None \<Rightarrow>
                           [Printk KERN_WARNING ''tbtn: Received unhandled HINF key_value: 0x%x''
                              [Arg_x (key_value_of hinf_result)]]
                       | Some (report_key_value, event_type_to_report) \<Rightarrow>
                           if event_type_to_report \<noteq> - 1 then
                             (let ok = sparse_keymap_report_event k idev report_key_value
                                         event_type_to_report True
                              in Sparse_keymap_report_event idev report_key_value
                                   event_type_to_report True ok #
                                 (if \<not> ok then
                                    [Printk KERN_WARNING
                                       ''tbtn: Failed to report HINF event via sparse_keymap: HINF_raw=0x%llx, report_key=%u, report_type=%d''
                                       [Arg_llx hinf_result, Arg_u report_key_value,
                                        Arg_d event_type_to_report]]
                                  else
                                    [Printk KERN_INFO
                                       ''tbtn: Reported key event: report_key=%u, report_type=%d''
                                       [Arg_u report_key_value, Arg_d event_type_to_report]]))
                           else []))))
              else
                (device, [Printk KERN_INFO ''tbtn: Received unknown event 0x%x'' [Arg_x event]])))"

text \<open>The events passed to the event emitter, the firmware queries and the log lines
  among the calls of a run.\<close>

fun emitted :: "action list \<Rightarrow> (input_dev \<times> u32 \<times> int \<times> bool) list" where
  "emitted [] = []"
| "emitted (Sparse_keymap_report_event d c v a r # as) = (d, c, v, a) # emitted as"
| "emitted (_ # as) = emitted as"

fun hinf_queries :: "action list \<Rightarrow> (acpi_status \<times> u64) list" where
  "hinf_queries [] = []"
| "hinf_queries (Acpi_evaluate_integer h m s v # as) = (s, v) # hinf_queries as"
| "hinf_queries (_ # as) = hinf_queries as"

fun logged :: "loglevel \<Rightarrow> action list \<Rightarrow> (string \<times> fmt_arg list) list" where
  "logged l [] = []"
| "logged l (Printk l' f xs # as) = (if l' = l then (f, xs) # logged l as else logged l as)"
| "logged l (_ # as) = logged l as"

text \<open>The guard of line 38: \<^verbatim>\<open>!tbtn || !tbtn->input_dev\<close>.\<close>

definition uninitialized :: "acpi_device \<Rightarrow> bool" where
  "uninitialized device =
     (case driver_data device of None \<Rightarrow> True | Some tbtn \<Rightarrow> input_dev tbtn = None)"

subsection \<open>Bind\<close>

text \<open>
  \<^verbatim>\<open>tbtn_add\<close> (lines 123 to 175). It answers the return value, the device as the
  callback leaves it and the calls it made. \<^verbatim>\<open>devm_kzalloc\<close> zeroes the context, so
  its \<^verbatim>\<open>input_dev\<close> starts null. \<^verbatim>\<open>device->driver_data\<close> and \<^verbatim>\<open>tbtn\<close> point to the
  same object: the write \<^verbatim>\<open>tbtn->input_dev = input_dev\<close> of line 162 is a write to the
  context the device holds.
\<close>

definition tbtn_add :: "kernel \<Rightarrow> acpi_device \<Rightarrow> int \<times> acpi_device \<times> action list" where
  "tbtn_add k device =
     (let called = Printk KERN_INFO ''tbtn: Device add called for %s'' [Arg_s (hid device)]
      in
      if \<not> devm_kzalloc k then
        (- ENOMEM, device, [called, Devm_kzalloc False])
      else
        (let tbtn = \<lparr>tbtn_dev.handle = acpi_device.handle device, input_dev = None\<rparr>;
             device1 = device\<lparr>driver_data := Some tbtn\<rparr>
         in
         case devm_input_allocate_device k of
           None \<Rightarrow>
             (- ENOMEM, device1,
              [called, Devm_kzalloc True, Devm_input_allocate_device None,
               Printk KERN_ERR ''tbtn: Failed to allocate input device'' []])
         | Some allocated \<Rightarrow>
             (let input_dev = allocated\<lparr>name := ''TBTN A1/A2 Buttons'',
                                          phys := ''tbtn/input0'',
                                          bustype := BUS_HOST\<rparr>;
                  error = sparse_keymap_setup k input_dev tbtn_keymap
              in
              if error \<noteq> 0 then
                (error, device1,
                 [called, Devm_kzalloc True, Devm_input_allocate_device (Some allocated),
                  Sparse_keymap_setup input_dev tbtn_keymap error,
                  Printk KERN_ERR ''tbtn: Failed to setup keymap: %d'' [Arg_d error]])
              else
                (let device2 = device1\<lparr>driver_data := Some (tbtn\<lparr>input_dev := Some input_dev\<rparr>)\<rparr>;
                     error' = input_register_device k input_dev
                 in
                 if error' \<noteq> 0 then
                   (error', device2,
                    [called, Devm_kzalloc True, Devm_input_allocate_device (Some allocated),
                     Sparse_keymap_setup input_dev tbtn_keymap error,
                     Input_register_device input_dev error',
                     Printk KERN_ERR ''tbtn: Failed to register input device: %d''
                       [Arg_d error']])
                 else
                   (0, device2,
                    [called, Devm_kzalloc True, Devm_input_allocate_device (Some allocated),
                     Sparse_keymap_setup input_dev tbtn_keymap error,
                     Input_register_device input_dev error',
                     Printk KERN_INFO ''tbtn: Input device registered for %s''
                       [Arg_s (hid device)]])))))"

text \<open>
  A call that failed, as the callback tests it: a null pointer from an allocation, a
  non-zero \<^verbatim>\<open>error\<close> from the keymap setup or the registration.
\<close>

fun failed :: "action \<Rightarrow> bool" where
  "failed (Devm_kzalloc ok) = (\<not> ok)"
| "failed (Devm_input_allocate_device d) = (d = None)"
| "failed (Sparse_keymap_setup d km e) = (e \<noteq> 0)"
| "failed (Input_register_device d e) = (e \<noteq> 0)"
| "failed _ = False"

fun is_printk :: "action \<Rightarrow> bool" where
  "is_printk (Printk l f xs) = True"
| "is_printk _ = False"

text \<open>
  The devices a run leaves registered with the input subsystem: those of its
  \<^verbatim>\<open>input_register_device\<close> calls that answered 0 (a registration that answers an
  error has registered nothing).
\<close>

fun input_registered :: "action list \<Rightarrow> input_dev list" where
  "input_registered [] = []"
| "input_registered (Input_register_device d e # as) =
     (if e = 0 then d # input_registered as else input_registered as)"
| "input_registered (_ # as) = input_registered as"

subsection \<open>Concrete kernels and devices\<close>

text \<open>
  A kernel whose firmware answers \<open>(status, v)\<close> to every query, whose event emitter
  answers \<open>ok\<close>, whose allocations succeed as \<open>alloc\<close> says and whose keymap setup and
  registration answer \<open>e1\<close> and \<open>e2\<close>; and a bound device.
\<close>

definition fresh_input_dev :: input_dev where
  "fresh_input_dev = \<lparr>addr = 1, name = [], phys = [], bustype = 0\<rparr>"

definition a_kernel :: "acpi_status \<Rightarrow> u64 \<Rightarrow> bool \<Rightarrow> bool \<Rightarrow> int \<Rightarrow> int \<Rightarrow> kernel" where
  "a_kernel status v ok alloc e1 e2 =
     \<lparr>acpi_evaluate_integer = (\<lambda>h m. (status, v)),
      acpi_format_exception = (\<lambda>s. ''AE_ERROR''),
      sparse_keymap_report_event = (\<lambda>d c x a. ok),
      devm_kzalloc = alloc,
      devm_input_allocate_device = (if alloc then Some fresh_input_dev else None),
      sparse_keymap_setup = (\<lambda>d km. e1),
      input_register_device = (\<lambda>d. e2)\<rparr>"

definition unbound_device :: acpi_device where
  "unbound_device = \<lparr>acpi_device.handle = 7, hid = ''MAT002A'', driver_data = None\<rparr>"

definition tbtn_input_dev :: input_dev where
  "tbtn_input_dev =
     \<lparr>addr = 1, name = ''TBTN A1/A2 Buttons'', phys = ''tbtn/input0'', bustype = BUS_HOST\<rparr>"

definition bound_device :: acpi_device where
  "bound_device =
     \<lparr>acpi_device.handle = 7, hid = ''MAT002A'',
      driver_data = Some \<lparr>tbtn_dev.handle = 7, input_dev = Some tbtn_input_dev\<rparr>\<rparr>"

section \<open>Properties\<close>

subsection \<open>The low seven bits\<close>

text \<open>
  The mask of line 68 keeps the low seven bits, and the cast to \<^verbatim>\<open>unsigned int\<close> loses
  none of them.
\<close>

lemma take_bit_7_eq_mask: "take_bit 7 (v :: u64) = v AND 0x7F"
  by (simp add: take_bit_eq_mask mask_eq_exp_minus_1)

lemma unat_key_value_of: "unat (key_value_of v) = unat (take_bit 7 v)"
proof -
  have "unat (key_value_of v) = take_bit 32 (take_bit 7 (unat v))"
    unfolding key_value_of_def take_bit_7_eq_mask [symmetric]
    by (simp add: unsigned_ucast_eq unsigned_take_bit_eq)
  also have "\<dots> = take_bit 7 (unat v)"
    by simp
  finally show ?thesis
    by (simp add: unsigned_take_bit_eq)
qed

lemma key_value_of_eq_iff:
  assumes "n < 128"
  shows "key_value_of v = of_nat n \<longleftrightarrow> take_bit 7 v = of_nat n"
proof -
  have a: "unat (of_nat n :: u32) = n"
    using assms by (simp add: unat_of_nat)
  have b: "unat (of_nat n :: u64) = n"
    using assms by (simp add: unat_of_nat)
  show ?thesis
    by (simp only: word_unat_eq_iff [where 'a = 32] word_unat_eq_iff [where 'a = 64]
        unat_key_value_of a b)
qed

lemma key_value_of_iffs:
  "key_value_of v = 57 \<longleftrightarrow> take_bit 7 v = 57"
  "key_value_of v = 56 \<longleftrightarrow> take_bit 7 v = 56"
  "key_value_of v = 67 \<longleftrightarrow> take_bit 7 v = 67"
  "key_value_of v = 66 \<longleftrightarrow> take_bit 7 v = 66"
  using key_value_of_eq_iff [of 57 v] key_value_of_eq_iff [of 56 v]
    key_value_of_eq_iff [of 67 v] key_value_of_eq_iff [of 66 v]
  by simp_all

lemma hinf_decode_cases:
  "hinf_decode v =
     (if take_bit 7 v = 57 then Some (57, 1)
      else if take_bit 7 v = 56 then Some (57, 0)
      else if take_bit 7 v = 67 then Some (67, 1)
      else if take_bit 7 v = 66 then Some (67, 0)
      else None)"
  by (simp add: hinf_decode_def key_switch_def key_value_of_iffs)

lemma hinf_decode_Some:
  "hinf_decode v = Some (c, x) \<Longrightarrow> (c = 57 \<or> c = 67) \<and> (x = 0 \<or> x = 1)"
  by (auto simp: hinf_decode_cases split: if_splits)

lemma hinf_decode_Some_iff:
  "(\<exists>p. hinf_decode v = Some p) \<longleftrightarrow> take_bit 7 v \<in> {56, 57, 66, 67}"
  by (auto simp: hinf_decode_cases)

subsection \<open>The runs of the handler\<close>

text \<open>The run on an initialised device and event 0x80, whatever the firmware answers.\<close>

lemma handler_query:
  assumes "driver_data device = Some tbtn" and "input_dev tbtn = Some idev"
    and "acpi_evaluate_integer k (tbtn_dev.handle tbtn) ''HINF'' = (status, v)"
  shows "tbtn_notify_handler k device 0x80 =
    (device,
     Printk KERN_INFO ''tbtn: Notify 0x80 received'' [] #
     Acpi_evaluate_integer (tbtn_dev.handle tbtn) ''HINF'' status v #
     (if ACPI_FAILURE status then
        [Printk KERN_ERR ''tbtn: Failed to evaluate HINF: %s''
           [Arg_s (acpi_format_exception k status)]]
      else
        Printk KERN_INFO ''tbtn: HINF returned 0x%llx'' [Arg_llx v] #
        (case hinf_decode v of
           None \<Rightarrow>
             [Printk KERN_WARNING ''tbtn: Received unhandled HINF key_value: 0x%x''
                [Arg_x (key_value_of v)]]
         | Some (c, x) \<Rightarrow>
             [Sparse_keymap_report_event idev c x True (sparse_keymap_report_event k idev c x True),
              if \<not> sparse_keymap_report_event k idev c x True then
                Printk KERN_WARNING
                  ''tbtn: Failed to report HINF event via sparse_keymap: HINF_raw=0x%llx, report_key=%u, report_type=%d''
                  [Arg_llx v, Arg_u c, Arg_d x]
              else
                Printk KERN_INFO ''tbtn: Reported key event: report_key=%u, report_type=%d''
                  [Arg_u c, Arg_d x]])))"
  using assms
  by (auto simp: tbtn_notify_handler_def Let_def split: option.splits dest: hinf_decode_Some)

lemma handler_other:
  assumes "driver_data device = Some tbtn" and "input_dev tbtn = Some idev"
    and "event \<noteq> 0x80"
  shows "tbtn_notify_handler k device event =
    (device, [Printk KERN_INFO ''tbtn: Received unknown event 0x%x'' [Arg_x event]])"
  using assms by (simp add: tbtn_notify_handler_def)

lemma handler_uninitialized:
  assumes "uninitialized device"
  shows "tbtn_notify_handler k device event =
    (device, [Printk KERN_WARNING ''tbtn: Received notify for uninitialized device'' []])"
  using assms by (auto simp: tbtn_notify_handler_def uninitialized_def split: option.splits)

lemma not_uninitialized:
  "\<not> uninitialized device \<Longrightarrow>
     \<exists>tbtn idev. driver_data device = Some tbtn \<and> input_dev tbtn = Some idev"
  by (auto simp: uninitialized_def split: option.splits)

lemma initialized_not_uninitialized:
  "driver_data device = Some tbtn \<Longrightarrow> input_dev tbtn = Some idev \<Longrightarrow> \<not> uninitialized device"
  by (simp add: uninitialized_def)

subsection \<open>The decoder\<close>

text \<open>
  Claim C1. On a raw status value whose low seven bits are 57 the decoder answers raw
  code 57, which the keymap table maps to PROG1, with value 1 (pressed); on 56 the same
  code with value 0 (released); on 67 code 67, which the table maps to PROG2, pressed; on
  66 code 67, released. The handler (on an initialised device, event 0x80, the firmware
  query answering this value with success) passes exactly that one pair to the event
  emitter.
\<close>

theorem decoder_pairs:
  assumes "driver_data device = Some tbtn" and "input_dev tbtn = Some idev"
    and "acpi_evaluate_integer k (tbtn_dev.handle tbtn) ''HINF'' = (status, v)"
    and "\<not> ACPI_FAILURE status"
  shows
    "map_option keycode (keymap_entry_from_scancode tbtn_keymap 57) = Some KEY_PROG1 \<and>
     map_option keycode (keymap_entry_from_scancode tbtn_keymap 67) = Some KEY_PROG2 \<and>
     (take_bit 7 v = 57 \<longrightarrow>
        hinf_decode v = Some (57, 1) \<and>
        emitted (snd (tbtn_notify_handler k device 0x80)) = [(idev, 57, 1, True)]) \<and>
     (take_bit 7 v = 56 \<longrightarrow>
        hinf_decode v = Some (57, 0) \<and>
        emitted (snd (tbtn_notify_handler k device 0x80)) = [(idev, 57, 0, True)]) \<and>
     (take_bit 7 v = 67 \<longrightarrow>
        hinf_decode v = Some (67, 1) \<and>
        emitted (snd (tbtn_notify_handler k device 0x80)) = [(idev, 67, 1, True)]) \<and>
     (take_bit 7 v = 66 \<longrightarrow>
        hinf_decode v = Some (67, 0) \<and>
        emitted (snd (tbtn_notify_handler k device 0x80)) = [(idev, 67, 0, True)])"
proof -
  have keys:
    "map_option keycode (keymap_entry_from_scancode tbtn_keymap 57) = Some KEY_PROG1"
    "map_option keycode (keymap_entry_from_scancode tbtn_keymap 67) = Some KEY_PROG2"
    by (simp_all add: tbtn_keymap_def)
  have run: "emitted (snd (tbtn_notify_handler k device 0x80)) = [(idev, c, x, True)]"
    if "hinf_decode v = Some (c, x)" for c x
    using that assms(4) by (simp add: handler_query [OF assms(1-3)])
  have "take_bit 7 v = 57 \<Longrightarrow> hinf_decode v = Some (57, 1)"
    and "take_bit 7 v = 56 \<Longrightarrow> hinf_decode v = Some (57, 0)"
    and "take_bit 7 v = 67 \<Longrightarrow> hinf_decode v = Some (67, 1)"
    and "take_bit 7 v = 66 \<Longrightarrow> hinf_decode v = Some (67, 0)"
    by (simp_all add: hinf_decode_cases)
  with keys run show ?thesis
    by blast
qed

theorem decoder_pairs_witness:
  "take_bit 7 (0x39 :: u64) = 57 \<and> take_bit 7 (0x38 :: u64) = 56 \<and>
   take_bit 7 (0x43 :: u64) = 67 \<and> take_bit 7 (0x42 :: u64) = 66 \<and>
   hinf_decode 0x39 = Some (57, 1) \<and>
   emitted (snd (tbtn_notify_handler (a_kernel 0 0x39 True True 0 0) bound_device 0x80))
     = [(tbtn_input_dev, 57, 1, True)] \<and>
   hinf_decode 0x38 = Some (57, 0) \<and>
   emitted (snd (tbtn_notify_handler (a_kernel 0 0x38 True True 0 0) bound_device 0x80))
     = [(tbtn_input_dev, 57, 0, True)] \<and>
   hinf_decode 0x43 = Some (67, 1) \<and>
   emitted (snd (tbtn_notify_handler (a_kernel 0 0x43 True True 0 0) bound_device 0x80))
     = [(tbtn_input_dev, 67, 1, True)] \<and>
   hinf_decode 0x42 = Some (67, 0) \<and>
   emitted (snd (tbtn_notify_handler (a_kernel 0 0x42 True True 0 0) bound_device 0x80))
     = [(tbtn_input_dev, 67, 0, True)]"
  using
    decoder_pairs [where device = bound_device
      and tbtn = "\<lparr>tbtn_dev.handle = 7, input_dev = Some tbtn_input_dev\<rparr>"
      and idev = tbtn_input_dev and k = "a_kernel 0 0x39 True True 0 0" and status = 0 and v = "0x39"]
    decoder_pairs [where device = bound_device
      and tbtn = "\<lparr>tbtn_dev.handle = 7, input_dev = Some tbtn_input_dev\<rparr>"
      and idev = tbtn_input_dev and k = "a_kernel 0 0x38 True True 0 0" and status = 0 and v = "0x38"]
    decoder_pairs [where device = bound_device
      and tbtn = "\<lparr>tbtn_dev.handle = 7, input_dev = Some tbtn_input_dev\<rparr>"
      and idev = tbtn_input_dev and k = "a_kernel 0 0x43 True True 0 0" and status = 0 and v = "0x43"]
    decoder_pairs [where device = bound_device
      and tbtn = "\<lparr>tbtn_dev.handle = 7, input_dev = Some tbtn_input_dev\<rparr>"
      and idev = tbtn_input_dev and k = "a_kernel 0 0x42 True True 0 0" and status = 0 and v = "0x42"]
  by (simp add: bound_device_def a_kernel_def ACPI_FAILURE_def)

lemma hinf_decode_take_bit: "hinf_decode (take_bit 7 v) = hinf_decode v"
  by (simp add: hinf_decode_cases)

lemma hinf_decode_cong:
  "take_bit 7 a = take_bit 7 b \<Longrightarrow> hinf_decode a = hinf_decode b"
  by (simp add: hinf_decode_cases)

lemma take_bit_7_upper:
  "take_bit 7 (v XOR push_bit 7 w) = take_bit 7 (v :: u64)"
  by (rule bit_eqI) (auto simp: bit_take_bit_iff bit_xor_iff bit_push_bit_iff)

lemma emitted_handler_query:
  assumes "driver_data device = Some tbtn" and "input_dev tbtn = Some idev"
    and "acpi_evaluate_integer k (tbtn_dev.handle tbtn) ''HINF'' = (status, v)"
  shows "emitted (snd (tbtn_notify_handler k device 0x80)) =
    (if ACPI_FAILURE status then []
     else case hinf_decode v of None \<Rightarrow> [] | Some (c, x) \<Rightarrow> [(idev, c, x, True)])"
  by (simp add: handler_query [OF assms] split: option.splits)

text \<open>
  Claim C2. Two raw status values with the same low seven bits are decoded alike: the
  same pair, or unrecognised for both. Bit 7 and the bits above it never change the
  outcome (flipping any of them, or clearing them all, leaves it as it was), although
  line 69 computes \<^verbatim>\<open>key_event_type\<close> from bit 7. For the handler: two kernels whose
  firmware answers the same status and values that agree on the low seven bits make it
  pass the same events to the event emitter.
\<close>

theorem decode_low_bits_only:
  "(take_bit 7 a = take_bit 7 b \<longrightarrow> hinf_decode a = hinf_decode b) \<and>
   hinf_decode (v XOR push_bit 7 w) = hinf_decode v \<and>
   hinf_decode (take_bit 7 v) = hinf_decode v \<and>
   ((\<forall>h. fst (acpi_evaluate_integer k' h ''HINF'') = fst (acpi_evaluate_integer k h ''HINF'') \<and>
         take_bit 7 (snd (acpi_evaluate_integer k' h ''HINF'')) =
         take_bit 7 (snd (acpi_evaluate_integer k h ''HINF''))) \<longrightarrow>
    emitted (snd (tbtn_notify_handler k' device event)) =
    emitted (snd (tbtn_notify_handler k device event)))"
proof -
  have run: "emitted (snd (tbtn_notify_handler k' device event)) =
      emitted (snd (tbtn_notify_handler k device event))"
    if same: "\<And>h. fst (acpi_evaluate_integer k' h ''HINF'') = fst (acpi_evaluate_integer k h ''HINF'')"
      and low: "\<And>h. take_bit 7 (snd (acpi_evaluate_integer k' h ''HINF'')) =
         take_bit 7 (snd (acpi_evaluate_integer k h ''HINF''))"
  proof (cases "uninitialized device")
    case True
    then show ?thesis by (simp add: handler_uninitialized)
  next
    case False
    then obtain tbtn idev where d: "driver_data device = Some tbtn" "input_dev tbtn = Some idev"
      using not_uninitialized by blast
    show ?thesis
    proof (cases "event = 0x80")
      case False
      then show ?thesis by (simp add: handler_other [OF d])
    next
      case True
      obtain s v where e: "acpi_evaluate_integer k (tbtn_dev.handle tbtn) ''HINF'' = (s, v)"
        by (cases "acpi_evaluate_integer k (tbtn_dev.handle tbtn) ''HINF''")
      obtain s' v' where e': "acpi_evaluate_integer k' (tbtn_dev.handle tbtn) ''HINF'' = (s', v')"
        by (cases "acpi_evaluate_integer k' (tbtn_dev.handle tbtn) ''HINF''")
      from same [of "tbtn_dev.handle tbtn"] e e' have s: "s' = s" by simp
      from low [of "tbtn_dev.handle tbtn"] e e' have "take_bit 7 v' = take_bit 7 v" by simp
      then have v: "hinf_decode v' = hinf_decode v"
        by (rule hinf_decode_cong)
      have "emitted (snd (tbtn_notify_handler k' device 0x80)) =
          emitted (snd (tbtn_notify_handler k device 0x80))"
        unfolding emitted_handler_query [OF d e] emitted_handler_query [OF d e'] s v ..
      with True show ?thesis by (simp only:)
    qed
  qed
  have "hinf_decode (v XOR push_bit 7 w) = hinf_decode v"
    by (rule hinf_decode_cong) (rule take_bit_7_upper)
  with run show ?thesis
    by (auto intro: hinf_decode_cong simp: hinf_decode_take_bit)
qed


theorem decode_low_bits_only_witness:
  "take_bit 7 (0xFFFFFFFFFFFFFFB9 :: u64) = take_bit 7 (0x39 :: u64) \<and>
   hinf_decode 0xFFFFFFFFFFFFFFB9 = hinf_decode 0x39 \<and>
   hinf_decode 0x39 = Some (57, 1) \<and>
   emitted (snd (tbtn_notify_handler (a_kernel 0 0xFFFFFFFFFFFFFFB9 True True 0 0) bound_device 0x80)) =
   emitted (snd (tbtn_notify_handler (a_kernel 0 0x39 True True 0 0) bound_device 0x80))"
  using decode_low_bits_only [where a = "0xFFFFFFFFFFFFFFB9" and b = "0x39"
      and k' = "a_kernel 0 0xFFFFFFFFFFFFFFB9 True True 0 0"
      and k = "a_kernel 0 0x39 True True 0 0" and device = bound_device and event = "0x80"]
  by (simp add: a_kernel_def hinf_decode_cases)

lemma handler_device: "fst (tbtn_notify_handler k device event) = device"
  by (simp add: tbtn_notify_handler_def Let_def split: option.splits prod.splits)

lemma handler_run_cases:
  obtains
    (uninit) "uninitialized device"
  | (other) tbtn idev where "driver_data device = Some tbtn" "input_dev tbtn = Some idev"
      "event \<noteq> 0x80"
  | (query) tbtn idev status v where "driver_data device = Some tbtn" "input_dev tbtn = Some idev"
      "event = 0x80" "acpi_evaluate_integer k (tbtn_dev.handle tbtn) ''HINF'' = (status, v)"
proof (cases "uninitialized device")
  case True
  then show ?thesis by (rule uninit)
next
  case False
  then obtain tbtn idev where d: "driver_data device = Some tbtn" "input_dev tbtn = Some idev"
    using not_uninitialized by blast
  show ?thesis
  proof (cases "event = 0x80")
    case False
    with d show ?thesis by (rule other)
  next
    case True
    obtain s v where "acpi_evaluate_integer k (tbtn_dev.handle tbtn) ''HINF'' = (s, v)"
      by (cases "acpi_evaluate_integer k (tbtn_dev.handle tbtn) ''HINF''")
    with d True show ?thesis by (rule query)
  qed
qed

lemma hinf_queries_handler_query:
  assumes "driver_data device = Some tbtn" and "input_dev tbtn = Some idev"
    and "acpi_evaluate_integer k (tbtn_dev.handle tbtn) ''HINF'' = (status, v)"
  shows "hinf_queries (snd (tbtn_notify_handler k device 0x80)) = [(status, v)]"
  by (simp add: handler_query [OF assms] split: option.splits)

text \<open>
  Claim C3. On a raw status value whose low seven bits are none of 56, 57, 66 and 67 the
  decoder answers unrecognised; the handler logs one warning (with the low seven bits)
  and passes nothing to the event emitter. The witness is the raw value 0x7F.
\<close>

theorem unrecognized_dropped:
  assumes "driver_data device = Some tbtn" and "input_dev tbtn = Some idev"
    and "acpi_evaluate_integer k (tbtn_dev.handle tbtn) ''HINF'' = (status, v)"
    and "\<not> ACPI_FAILURE status"
    and "take_bit 7 v \<notin> {56, 57, 66, 67}"
  shows
    "hinf_decode v = None \<and>
     tbtn_notify_handler k device 0x80 =
       (device,
        [Printk KERN_INFO ''tbtn: Notify 0x80 received'' [],
         Acpi_evaluate_integer (tbtn_dev.handle tbtn) ''HINF'' status v,
         Printk KERN_INFO ''tbtn: HINF returned 0x%llx'' [Arg_llx v],
         Printk KERN_WARNING ''tbtn: Received unhandled HINF key_value: 0x%x''
           [Arg_x (ucast (take_bit 7 v))]]) \<and>
     emitted (snd (tbtn_notify_handler k device 0x80)) = [] \<and>
     length (logged KERN_WARNING (snd (tbtn_notify_handler k device 0x80))) = 1"
proof -
  from assms(5) have none: "hinf_decode v = None"
    by (simp add: hinf_decode_cases)
  have kv: "key_value_of v = ucast (take_bit 7 v)"
    by (simp add: key_value_of_def take_bit_7_eq_mask)
  from none assms(4) kv show ?thesis
    by (simp add: handler_query [OF assms(1-3)])
qed

theorem unrecognized_dropped_witness:
  "take_bit 7 (0x7F :: u64) \<notin> {56, 57, 66, 67} \<and>
   hinf_decode 0x7F = None \<and>
   emitted (snd (tbtn_notify_handler (a_kernel 0 0x7F True True 0 0) bound_device 0x80)) = [] \<and>
   logged KERN_WARNING (snd (tbtn_notify_handler (a_kernel 0 0x7F True True 0 0) bound_device 0x80))
     = [(''tbtn: Received unhandled HINF key_value: 0x%x'', [Arg_x 0x7F])]"
  using unrecognized_dropped [where device = bound_device
      and tbtn = "\<lparr>tbtn_dev.handle = 7, input_dev = Some tbtn_input_dev\<rparr>"
      and idev = tbtn_input_dev and k = "a_kernel 0 0x7F True True 0 0" and status = 0
      and v = "0x7F"]
  by (simp add: bound_device_def a_kernel_def ACPI_FAILURE_def)

subsection \<open>The handler\<close>

text \<open>
  Claim C5. When the firmware query of a notification fails, the handler logs the failure
  as its last call and returns: nothing is passed to the event emitter, the device and
  its context are as before, and the query was made once (no retry).
\<close>

theorem hinf_failure_dropped:
  assumes "(status, v) \<in> set (hinf_queries (snd (tbtn_notify_handler k device event)))"
    and "ACPI_FAILURE status"
  shows
    "fst (tbtn_notify_handler k device event) = device \<and>
     emitted (snd (tbtn_notify_handler k device event)) = [] \<and>
     hinf_queries (snd (tbtn_notify_handler k device event)) = [(status, v)] \<and>
     logged KERN_ERR (snd (tbtn_notify_handler k device event)) =
       [(''tbtn: Failed to evaluate HINF: %s'', [Arg_s (acpi_format_exception k status)])] \<and>
     last (snd (tbtn_notify_handler k device event)) =
       Printk KERN_ERR ''tbtn: Failed to evaluate HINF: %s''
         [Arg_s (acpi_format_exception k status)]"
proof (cases rule: handler_run_cases [where device = device and event = event and k = k])
  case uninit
  with assms(1) show ?thesis by (simp add: handler_uninitialized)
next
  case (other tbtn idev)
  with assms(1) show ?thesis by (simp add: handler_other)
next
  case (query tbtn idev s w)
  note q = handler_query [OF query(1,2,4)]
  from assms(1) query(3) have "s = status" "w = v"
    by (simp_all add: hinf_queries_handler_query [OF query(1,2,4)])
  with assms(2) query(3) show ?thesis
    by (simp add: q)
qed


theorem hinf_failure_dropped_witness:
  "ACPI_FAILURE 5 \<and>
   tbtn_notify_handler (a_kernel 5 0x39 True True 0 0) bound_device 0x80 =
     (bound_device,
      [Printk KERN_INFO ''tbtn: Notify 0x80 received'' [],
       Acpi_evaluate_integer 7 ''HINF'' 5 0x39,
       Printk KERN_ERR ''tbtn: Failed to evaluate HINF: %s'' [Arg_s ''AE_ERROR'']]) \<and>
   emitted (snd (tbtn_notify_handler (a_kernel 5 0x39 True True 0 0) bound_device 0x80)) = [] \<and>
   hinf_queries (snd (tbtn_notify_handler (a_kernel 5 0x39 True True 0 0) bound_device 0x80))
     = [(5, 0x39)]"
  using hinf_failure_dropped [where k = "a_kernel 5 0x39 True True 0 0" and device = bound_device
      and event = "0x80" and status = 5 and v = "0x39"]
  by (simp add: tbtn_notify_handler_def bound_device_def a_kernel_def ACPI_FAILURE_def)

text \<open>
  Claim C6, as stated, fails where the guard of line 38 returns first: on an
  uninitialised device and event 0x81 the handler logs the warning of line 40 and never
  the unknown event.
\<close>

theorem unknown_event_counterexample:
  "(0x81 :: u32) \<noteq> 0x80 \<and>
   snd (tbtn_notify_handler (a_kernel 0 0x39 True True 0 0) unbound_device 0x81) =
     [Printk KERN_WARNING ''tbtn: Received notify for uninitialized device'' []] \<and>
   Printk KERN_INFO ''tbtn: Received unknown event 0x%x'' [Arg_x 0x81]
     \<notin> set (snd (tbtn_notify_handler (a_kernel 0 0x39 True True 0 0) unbound_device 0x81)) \<and>
   logged KERN_INFO (snd (tbtn_notify_handler (a_kernel 0 0x39 True True 0 0) unbound_device 0x81))
     = []"
  by (simp add: tbtn_notify_handler_def unbound_device_def)

text \<open>
  Claim C6, amended. On an event code other than 0x80 the handler makes no firmware
  query, passes nothing to the event emitter and leaves the device as it was; it logs
  the unknown event when the device is initialised, and the warning of line 40 when it
  is not. A firmware query or an emission happens on event code 0x80 only.
\<close>

theorem unknown_event_ignored:
  "(event \<noteq> 0x80 \<longrightarrow>
      fst (tbtn_notify_handler k device event) = device \<and>
      hinf_queries (snd (tbtn_notify_handler k device event)) = [] \<and>
      emitted (snd (tbtn_notify_handler k device event)) = [] \<and>
      snd (tbtn_notify_handler k device event) =
        (if uninitialized device
         then [Printk KERN_WARNING ''tbtn: Received notify for uninitialized device'' []]
         else [Printk KERN_INFO ''tbtn: Received unknown event 0x%x'' [Arg_x event]])) \<and>
   (hinf_queries (snd (tbtn_notify_handler k device event)) \<noteq> [] \<or>
    emitted (snd (tbtn_notify_handler k device event)) \<noteq> [] \<longrightarrow> event = 0x80)"
proof (cases rule: handler_run_cases [where device = device and event = event and k = k])
  case uninit
  then show ?thesis by (simp add: handler_uninitialized)
next
  case (other tbtn idev)
  then show ?thesis
    by (simp add: handler_other initialized_not_uninitialized)
next
  case (query tbtn idev s w)
  then show ?thesis by simp
qed

theorem unknown_event_ignored_witness:
  "(0x81 :: u32) \<noteq> 0x80 \<and>
   \<not> uninitialized bound_device \<and>
   tbtn_notify_handler (a_kernel 0 0x39 True True 0 0) bound_device 0x81 =
     (bound_device, [Printk KERN_INFO ''tbtn: Received unknown event 0x%x'' [Arg_x 0x81]]) \<and>
   hinf_queries (snd (tbtn_notify_handler (a_kernel 0 0x39 True True 0 0) bound_device 0x81)) = [] \<and>
   emitted (snd (tbtn_notify_handler (a_kernel 0 0x39 True True 0 0) bound_device 0x81)) = [] \<and>
   hinf_queries (snd (tbtn_notify_handler (a_kernel 0 0x39 True True 0 0) bound_device 0x80)) \<noteq> []"
  using unknown_event_ignored [where k = "a_kernel 0 0x39 True True 0 0" and device = bound_device
      and event = "0x81"]
    unknown_event_ignored [where k = "a_kernel 0 0x39 True True 0 0" and device = bound_device
      and event = "0x80"]
  by (simp add: tbtn_notify_handler_def bound_device_def a_kernel_def ACPI_FAILURE_def
      uninitialized_def hinf_decode_cases)

text \<open>
  Claim C9. When the device context or its input device is null, the handler logs the
  warning of line 40 and returns: no firmware query, nothing passed to the event emitter.
\<close>

theorem uninitialized_ignored:
  assumes "driver_data device = None \<or>
     (\<exists>tbtn. driver_data device = Some tbtn \<and> input_dev tbtn = None)"
  shows
    "tbtn_notify_handler k device event =
       (device, [Printk KERN_WARNING ''tbtn: Received notify for uninitialized device'' []]) \<and>
     hinf_queries (snd (tbtn_notify_handler k device event)) = [] \<and>
     emitted (snd (tbtn_notify_handler k device event)) = []"
proof -
  from assms have "uninitialized device"
    by (auto simp: uninitialized_def)
  then show ?thesis
    by (simp add: handler_uninitialized)
qed

theorem uninitialized_ignored_witness:
  "driver_data unbound_device = None \<and>
   tbtn_notify_handler (a_kernel 0 0x39 True True 0 0) unbound_device 0x80 =
     (unbound_device, [Printk KERN_WARNING ''tbtn: Received notify for uninitialized device'' []]) \<and>
   driver_data (unbound_device\<lparr>driver_data := Some \<lparr>tbtn_dev.handle = 7, input_dev = None\<rparr>\<rparr>)
     = Some \<lparr>tbtn_dev.handle = 7, input_dev = None\<rparr> \<and>
   snd (tbtn_notify_handler (a_kernel 0 0x39 True True 0 0)
     (unbound_device\<lparr>driver_data := Some \<lparr>tbtn_dev.handle = 7, input_dev = None\<rparr>\<rparr>) 0x80) =
     [Printk KERN_WARNING ''tbtn: Received notify for uninitialized device'' []]"
  using uninitialized_ignored [where device = unbound_device
      and k = "a_kernel 0 0x39 True True 0 0" and event = "0x80"]
    uninitialized_ignored [where
      device = "unbound_device\<lparr>driver_data := Some \<lparr>tbtn_dev.handle = 7, input_dev = None\<rparr>\<rparr>"
      and k = "a_kernel 0 0x39 True True 0 0" and event = "0x80"]
  by (simp add: unbound_device_def)


text \<open>
  Claim C8. When the event emitter answers a failure, the handler logs a warning as its
  last call and returns; the device and its context are as before, so the handler runs
  on what it leaves (under any kernel and event) exactly as on the device before.
\<close>

theorem emission_failure_not_fatal:
  assumes "Sparse_keymap_report_event idev c x a False
             \<in> set (snd (tbtn_notify_handler k device event))"
  shows
    "fst (tbtn_notify_handler k device event) = device \<and>
     emitted (snd (tbtn_notify_handler k device event)) = [(idev, c, x, a)] \<and>
     (\<exists>status v.
        hinf_queries (snd (tbtn_notify_handler k device event)) = [(status, v)] \<and>
        logged KERN_WARNING (snd (tbtn_notify_handler k device event)) =
          [(''tbtn: Failed to report HINF event via sparse_keymap: HINF_raw=0x%llx, report_key=%u, report_type=%d'',
            [Arg_llx v, Arg_u c, Arg_d x])] \<and>
        last (snd (tbtn_notify_handler k device event)) =
          Printk KERN_WARNING
            ''tbtn: Failed to report HINF event via sparse_keymap: HINF_raw=0x%llx, report_key=%u, report_type=%d''
            [Arg_llx v, Arg_u c, Arg_d x]) \<and>
     (\<forall>k' event'.
        tbtn_notify_handler k' (fst (tbtn_notify_handler k device event)) event' =
        tbtn_notify_handler k' device event')"
proof (cases rule: handler_run_cases [where device = device and event = event and k = k])
  case uninit
  with assms show ?thesis by (simp add: handler_uninitialized)
next
  case (other tbtn idev')
  with assms show ?thesis by (simp add: handler_other)
next
  case (query tbtn idev' s w)
  note q = handler_query [OF query(1,2,4)]
  from assms query(3) show ?thesis
    by (auto simp: q handler_device split: if_splits option.splits)
qed

theorem emission_failure_not_fatal_witness:
  "tbtn_notify_handler (a_kernel 0 0x39 False True 0 0) bound_device 0x80 =
     (bound_device,
      [Printk KERN_INFO ''tbtn: Notify 0x80 received'' [],
       Acpi_evaluate_integer 7 ''HINF'' 0 0x39,
       Printk KERN_INFO ''tbtn: HINF returned 0x%llx'' [Arg_llx 0x39],
       Sparse_keymap_report_event tbtn_input_dev 57 1 True False,
       Printk KERN_WARNING
         ''tbtn: Failed to report HINF event via sparse_keymap: HINF_raw=0x%llx, report_key=%u, report_type=%d''
         [Arg_llx 0x39, Arg_u 57, Arg_d 1]]) \<and>
   emitted (snd (tbtn_notify_handler (a_kernel 0 0x42 True True 0 0)
     (fst (tbtn_notify_handler (a_kernel 0 0x39 False True 0 0) bound_device 0x80)) 0x80))
     = [(tbtn_input_dev, 67, 0, True)]"
  using emission_failure_not_fatal [where k = "a_kernel 0 0x39 False True 0 0"
      and device = bound_device and event = "0x80" and idev = tbtn_input_dev and c = 57
      and x = 1 and a = True]
  by (simp add: tbtn_notify_handler_def bound_device_def a_kernel_def ACPI_FAILURE_def
      hinf_decode_cases)

text \<open>
  Claim C10. One run of the handler calls the event emitter at most once, and it calls it
  exactly when the event code is 0x80, the firmware query of this run succeeded and the
  low seven bits of its value are one of 56, 57, 66 and 67. On an initialised device the
  query is the one the kernel answers for the context's handle; on an uninitialised one
  there is no query and no emission.
\<close>

theorem emits_at_most_once:
  "length (emitted (snd (tbtn_notify_handler k device event))) \<le> 1 \<and>
   (emitted (snd (tbtn_notify_handler k device event)) \<noteq> [] \<longleftrightarrow>
      event = 0x80 \<and>
      (\<exists>status v.
         hinf_queries (snd (tbtn_notify_handler k device event)) = [(status, v)] \<and>
         \<not> ACPI_FAILURE status \<and> take_bit 7 v \<in> {56, 57, 66, 67})) \<and>
   (driver_data device = Some tbtn \<and> input_dev tbtn = Some idev \<and>
    acpi_evaluate_integer k (tbtn_dev.handle tbtn) ''HINF'' = (status', v') \<longrightarrow>
      (emitted (snd (tbtn_notify_handler k device event)) \<noteq> [] \<longleftrightarrow>
         event = 0x80 \<and> \<not> ACPI_FAILURE status' \<and> take_bit 7 v' \<in> {56, 57, 66, 67})) \<and>
   (uninitialized device \<longrightarrow> emitted (snd (tbtn_notify_handler k device event)) = [])"
proof (cases rule: handler_run_cases [where device = device and event = event and k = k])
  case uninit
  then have "driver_data device = Some tbtn \<Longrightarrow> input_dev tbtn \<noteq> Some idev"
    by (auto simp: uninitialized_def)
  with uninit show ?thesis by (auto simp: handler_uninitialized)
next
  case (other tbtn' idev')
  then show ?thesis by (simp add: handler_other)
next
  case (query tbtn' idev' s w)
  note e = emitted_handler_query [OF query(1,2,4)]
  note h = hinf_queries_handler_query [OF query(1,2,4)]
  have dec: "hinf_decode w \<noteq> None \<longleftrightarrow> take_bit 7 w \<in> {56, 57, 66, 67}"
    using hinf_decode_Some_iff [of w] by auto
  have len: "length (emitted (snd (tbtn_notify_handler k device 0x80))) \<le> 1"
    by (simp add: e split: option.splits)
  have ne: "emitted (snd (tbtn_notify_handler k device 0x80)) \<noteq> [] \<longleftrightarrow>
      \<not> ACPI_FAILURE s \<and> take_bit 7 w \<in> {56, 57, 66, 67}"
    unfolding e dec [symmetric] by (simp split: option.splits)
  have un: "\<not> uninitialized device"
    using query(1,2) by (rule initialized_not_uninitialized)
  have same: "s = status' \<and> w = v'"
    if "driver_data device = Some tbtn" "acpi_evaluate_integer k (tbtn_dev.handle tbtn) ''HINF'' = (status', v')"
    using that query(1,4) by simp
  from len ne un same show ?thesis
    unfolding query(3) h by auto
qed

theorem emits_at_most_once_witness:
  "emitted (snd (tbtn_notify_handler (a_kernel 0 0x43 True True 0 0) bound_device 0x80))
     = [(tbtn_input_dev, 67, 1, True)] \<and>
   \<not> ACPI_FAILURE 0 \<and> take_bit 7 (0x43 :: u64) \<in> {56, 57, 66, 67} \<and>
   uninitialized unbound_device \<and>
   emitted (snd (tbtn_notify_handler (a_kernel 0 0x43 True True 0 0) unbound_device 0x80)) = []"
  using emits_at_most_once [where k = "a_kernel 0 0x43 True True 0 0" and device = bound_device
      and event = "0x80" and tbtn = "\<lparr>tbtn_dev.handle = 7, input_dev = Some tbtn_input_dev\<rparr>"
      and idev = tbtn_input_dev and status' = 0 and v' = "0x43"]
    emits_at_most_once [where k = "a_kernel 0 0x43 True True 0 0" and device = unbound_device
      and event = "0x80" and tbtn = "\<lparr>tbtn_dev.handle = 7, input_dev = Some tbtn_input_dev\<rparr>"
      and idev = tbtn_input_dev and status' = 0 and v' = "0x43"]
  by (simp add: tbtn_notify_handler_def bound_device_def unbound_device_def a_kernel_def
      ACPI_FAILURE_def uninitialized_def hinf_decode_cases)

subsection \<open>The keymap table and the decoder\<close>

lemma emitted_handler_codes:
  assumes "(d, c, x, a) \<in> set (emitted (snd (tbtn_notify_handler k device event)))"
  shows "\<exists>v. hinf_decode v = Some (c, x)"
proof (cases rule: handler_run_cases [where device = device and event = event and k = k])
  case uninit
  with assms show ?thesis by (simp add: handler_uninitialized)
next
  case (other tbtn idev)
  with assms show ?thesis by (simp add: handler_other)
next
  case (query tbtn idev s w)
  from assms query(3) have "hinf_decode w = Some (c, x)"
    by (auto simp: emitted_handler_query [OF query(1,2,4)] split: if_splits option.splits)
  then show ?thesis ..
qed

lemma tbtn_keymap_entries:
  "keymap_entries tbtn_keymap =
     [\<lparr>ke_type = KE_KEY, code = 57, keycode = KEY_PROG1\<rparr>,
      \<lparr>ke_type = KE_KEY, code = 67, keycode = KEY_PROG2\<rparr>]"
  by (simp add: tbtn_keymap_def)

lemma tbtn_keymap_has_entry:
  assumes "c = 57 \<or> c = 67"
  shows "c \<in> set (map code (keymap_entries tbtn_keymap)) \<and>
      map_option code (keymap_entry_from_scancode tbtn_keymap c) = Some c"
  using assms by (auto simp: tbtn_keymap_def)

text \<open>
  Claim C4. The keymap table is the entry for raw code 57 (PROG1), the entry for raw
  code 67 (PROG2) and the sentinel; the raw codes in front of the sentinel are distinct;
  and every code the decoder answers, and so every code a run of the handler passes to
  the event emitter, is 57 or 67 and has its entry in the table.
\<close>

theorem keymap_table:
  "tbtn_keymap =
     [\<lparr>ke_type = KE_KEY, code = 57, keycode = KEY_PROG1\<rparr>,
      \<lparr>ke_type = KE_KEY, code = 67, keycode = KEY_PROG2\<rparr>,
      \<lparr>ke_type = KE_END, code = 0, keycode = 0\<rparr>] \<and>
   keymap_entries tbtn_keymap =
     [\<lparr>ke_type = KE_KEY, code = 57, keycode = KEY_PROG1\<rparr>,
      \<lparr>ke_type = KE_KEY, code = 67, keycode = KEY_PROG2\<rparr>] \<and>
   distinct (map code (keymap_entries tbtn_keymap)) \<and>
   (\<forall>v c x. hinf_decode v = Some (c, x) \<longrightarrow>
      (c = 57 \<or> c = 67) \<and>
      c \<in> set (map code (keymap_entries tbtn_keymap)) \<and>
      map_option code (keymap_entry_from_scancode tbtn_keymap c) = Some c) \<and>
   (\<forall>k device event d c x a.
      (d, c, x, a) \<in> set (emitted (snd (tbtn_notify_handler k device event))) \<longrightarrow>
      (c = 57 \<or> c = 67) \<and>
      c \<in> set (map code (keymap_entries tbtn_keymap)) \<and>
      map_option code (keymap_entry_from_scancode tbtn_keymap c) = Some c)"
proof (intro conjI allI impI)
  show "tbtn_keymap =
     [\<lparr>ke_type = KE_KEY, code = 57, keycode = KEY_PROG1\<rparr>,
      \<lparr>ke_type = KE_KEY, code = 67, keycode = KEY_PROG2\<rparr>,
      \<lparr>ke_type = KE_END, code = 0, keycode = 0\<rparr>]"
    by (rule tbtn_keymap_def)
  show "keymap_entries tbtn_keymap =
     [\<lparr>ke_type = KE_KEY, code = 57, keycode = KEY_PROG1\<rparr>,
      \<lparr>ke_type = KE_KEY, code = 67, keycode = KEY_PROG2\<rparr>]"
    by (rule tbtn_keymap_entries)
  show "distinct (map code (keymap_entries tbtn_keymap))"
    by (simp add: tbtn_keymap_entries)
next
  fix v c x
  assume "hinf_decode v = Some (c, x)"
  then have c: "c = 57 \<or> c = 67"
    using hinf_decode_Some by blast
  then show "c = 57 \<or> c = 67" .
  from c show "c \<in> set (map code (keymap_entries tbtn_keymap))"
    using tbtn_keymap_has_entry by blast
  from c show "map_option code (keymap_entry_from_scancode tbtn_keymap c) = Some c"
    using tbtn_keymap_has_entry by blast
next
  fix k device event d c x a
  assume "(d, c, x, a) \<in> set (emitted (snd (tbtn_notify_handler k device event)))"
  then obtain v where "hinf_decode v = Some (c, x)"
    using emitted_handler_codes by blast
  then have c: "c = 57 \<or> c = 67"
    using hinf_decode_Some by blast
  then show "c = 57 \<or> c = 67" .
  from c show "c \<in> set (map code (keymap_entries tbtn_keymap))"
    using tbtn_keymap_has_entry by blast
  from c show "map_option code (keymap_entry_from_scancode tbtn_keymap c) = Some c"
    using tbtn_keymap_has_entry by blast
qed

theorem keymap_table_witness:
  "hinf_decode 0x39 = Some (57, 1) \<and> hinf_decode 0x42 = Some (67, 0) \<and>
   map_option code (keymap_entry_from_scancode tbtn_keymap 57) = Some 57 \<and>
   map_option code (keymap_entry_from_scancode tbtn_keymap 67) = Some 67 \<and>
   (tbtn_input_dev, 57, 1, True)
     \<in> set (emitted (snd (tbtn_notify_handler (a_kernel 0 0x39 True True 0 0) bound_device 0x80)))"
proof -
  have a: "hinf_decode 0x39 = Some (57, 1)" and b: "hinf_decode 0x42 = Some (67, 0)"
    by (simp_all add: hinf_decode_cases)
  have e: "(tbtn_input_dev, 57, 1, True)
     \<in> set (emitted (snd (tbtn_notify_handler (a_kernel 0 0x39 True True 0 0) bound_device 0x80)))"
    by (simp add: tbtn_notify_handler_def bound_device_def a_kernel_def ACPI_FAILURE_def a)
  from keymap_table a b e show ?thesis
    by blast
qed

subsection \<open>The bind callback\<close>

text \<open>The five runs of the bind.\<close>

lemma tbtn_add_cases:
  obtains
    (kzalloc) "\<not> devm_kzalloc k"
      "tbtn_add k device =
         (- ENOMEM, device,
          [Printk KERN_INFO ''tbtn: Device add called for %s'' [Arg_s (hid device)],
           Devm_kzalloc False])"
  | (alloc) "devm_kzalloc k" "devm_input_allocate_device k = None"
      "tbtn_add k device =
         (- ENOMEM,
          device\<lparr>driver_data :=
            Some \<lparr>tbtn_dev.handle = acpi_device.handle device, input_dev = None\<rparr>\<rparr>,
          [Printk KERN_INFO ''tbtn: Device add called for %s'' [Arg_s (hid device)],
           Devm_kzalloc True, Devm_input_allocate_device None,
           Printk KERN_ERR ''tbtn: Failed to allocate input device'' []])"
  | (keymap) allocated idev e where "devm_kzalloc k"
      "devm_input_allocate_device k = Some allocated"
      "idev = allocated\<lparr>name := ''TBTN A1/A2 Buttons'', phys := ''tbtn/input0'',
                          bustype := BUS_HOST\<rparr>"
      "sparse_keymap_setup k idev tbtn_keymap = e" "e \<noteq> 0"
      "tbtn_add k device =
         (e,
          device\<lparr>driver_data :=
            Some \<lparr>tbtn_dev.handle = acpi_device.handle device, input_dev = None\<rparr>\<rparr>,
          [Printk KERN_INFO ''tbtn: Device add called for %s'' [Arg_s (hid device)],
           Devm_kzalloc True, Devm_input_allocate_device (Some allocated),
           Sparse_keymap_setup idev tbtn_keymap e,
           Printk KERN_ERR ''tbtn: Failed to setup keymap: %d'' [Arg_d e]])"
  | (register) allocated idev e where "devm_kzalloc k"
      "devm_input_allocate_device k = Some allocated"
      "idev = allocated\<lparr>name := ''TBTN A1/A2 Buttons'', phys := ''tbtn/input0'',
                          bustype := BUS_HOST\<rparr>"
      "sparse_keymap_setup k idev tbtn_keymap = 0"
      "input_register_device k idev = e" "e \<noteq> 0"
      "tbtn_add k device =
         (e,
          device\<lparr>driver_data :=
            Some \<lparr>tbtn_dev.handle = acpi_device.handle device, input_dev = Some idev\<rparr>\<rparr>,
          [Printk KERN_INFO ''tbtn: Device add called for %s'' [Arg_s (hid device)],
           Devm_kzalloc True, Devm_input_allocate_device (Some allocated),
           Sparse_keymap_setup idev tbtn_keymap 0,
           Input_register_device idev e,
           Printk KERN_ERR ''tbtn: Failed to register input device: %d'' [Arg_d e]])"
  | (bound) allocated idev where "devm_kzalloc k"
      "devm_input_allocate_device k = Some allocated"
      "idev = allocated\<lparr>name := ''TBTN A1/A2 Buttons'', phys := ''tbtn/input0'',
                          bustype := BUS_HOST\<rparr>"
      "sparse_keymap_setup k idev tbtn_keymap = 0"
      "input_register_device k idev = 0"
      "tbtn_add k device =
         (0,
          device\<lparr>driver_data :=
            Some \<lparr>tbtn_dev.handle = acpi_device.handle device, input_dev = Some idev\<rparr>\<rparr>,
          [Printk KERN_INFO ''tbtn: Device add called for %s'' [Arg_s (hid device)],
           Devm_kzalloc True, Devm_input_allocate_device (Some allocated),
           Sparse_keymap_setup idev tbtn_keymap 0,
           Input_register_device idev 0,
           Printk KERN_INFO ''tbtn: Input device registered for %s'' [Arg_s (hid device)]])"
proof (cases "devm_kzalloc k")
  case False
  then show ?thesis
    by (intro kzalloc) (simp_all add: tbtn_add_def)
next
  case kz: True
  show ?thesis
  proof (cases "devm_input_allocate_device k")
    case None
    with kz show ?thesis
      by (intro alloc) (simp_all add: tbtn_add_def)
  next
    case (Some allocated)
    define idev where "idev = allocated\<lparr>name := ''TBTN A1/A2 Buttons'', phys := ''tbtn/input0'',
                          bustype := BUS_HOST\<rparr>"
    show ?thesis
    proof (cases "sparse_keymap_setup k idev tbtn_keymap = 0")
      case False
      with kz Some idev_def show ?thesis
        by (intro keymap [of allocated idev "sparse_keymap_setup k idev tbtn_keymap"])
          (simp_all add: tbtn_add_def Let_def)
    next
      case km: True
      show ?thesis
      proof (cases "input_register_device k idev = 0")
        case False
        with kz Some idev_def km show ?thesis
          by (intro register [of allocated idev "input_register_device k idev"])
            (simp_all add: tbtn_add_def Let_def)
      next
        case True
        with kz Some idev_def km show ?thesis
          by (intro bound [of allocated idev]) (simp_all add: tbtn_add_def Let_def)
      qed
    qed
  qed
qed


text \<open>
  Claim C7. The kernel's keymap setup and registration answer 0 or a negative error
  code (the two hypotheses). Then a bind in which an allocation, the keymap setup or the
  registration fails returns a negative error code (\<^verbatim>\<open>-ENOMEM\<close> for an allocation), and
  a bind returns a negative code only then; after the failed call the callback makes no
  call but a log line; a failed bind leaves no device registered with the input
  subsystem; and a registration call comes only after a keymap setup of the same device
  that answered 0, with nothing but a log line after it.
\<close>

theorem bind_failure_aborts:
  assumes "\<And>d km. sparse_keymap_setup k d km \<le> 0"
    and "\<And>d. input_register_device k d \<le> 0"
    and "tbtn_add k device = (rc, device', calls)"
  shows
    "rc \<le> 0 \<and>
     ((\<exists>a \<in> set calls. failed a) \<longleftrightarrow> rc < 0) \<and>
     (Devm_kzalloc False \<in> set calls \<or> Devm_input_allocate_device None \<in> set calls
        \<longrightarrow> rc = - ENOMEM) \<and>
     (rc < 0 \<longrightarrow> input_registered calls = []) \<and>
     (\<forall>pre a post. calls = pre @ a # post \<and> failed a \<longrightarrow> list_all is_printk post) \<and>
     (\<forall>pre d e post. calls = pre @ Input_register_device d e # post \<longrightarrow>
        Sparse_keymap_setup d tbtn_keymap 0 \<in> set pre \<and> list_all is_printk post) \<and>
     (rc = 0 \<longrightarrow>
        (\<exists>d. input_registered calls = [d] \<and>
             map_option input_dev (driver_data device') = Some (Some d)))"
proof (cases rule: tbtn_add_cases [where k = k and device = device])
  case kzalloc
  with assms(3) show ?thesis
    by (auto simp: ENOMEM_def Cons_eq_append_conv)
next
  case alloc
  with assms(3) show ?thesis
    by (auto simp: ENOMEM_def Cons_eq_append_conv)
next
  case (keymap allocated idev e)
  from assms(1) [of idev tbtn_keymap] keymap(4,5) have "e < 0" by simp
  with keymap(6) assms(3) show ?thesis
    by (auto simp: ENOMEM_def Cons_eq_append_conv)
next
  case (register allocated idev e)
  from assms(2) [of idev] register(5,6) have "e < 0" by simp
  with register(7) assms(3) show ?thesis
    by (auto simp: ENOMEM_def Cons_eq_append_conv)
next
  case (bound allocated idev)
  with assms(3) show ?thesis
    by (auto simp: ENOMEM_def Cons_eq_append_conv)
qed


theorem bind_failure_aborts_witness:
  "tbtn_add (a_kernel 0 0 True True 0 (- 16)) unbound_device =
     (- 16,
      unbound_device\<lparr>driver_data := Some \<lparr>tbtn_dev.handle = 7, input_dev = Some tbtn_input_dev\<rparr>\<rparr>,
      [Printk KERN_INFO ''tbtn: Device add called for %s'' [Arg_s ''MAT002A''],
       Devm_kzalloc True, Devm_input_allocate_device (Some fresh_input_dev),
       Sparse_keymap_setup tbtn_input_dev tbtn_keymap 0,
       Input_register_device tbtn_input_dev (- 16),
       Printk KERN_ERR ''tbtn: Failed to register input device: %d'' [Arg_d (- 16)]]) \<and>
   input_registered (snd (snd (tbtn_add (a_kernel 0 0 True True 0 (- 16)) unbound_device))) = [] \<and>
   tbtn_add (a_kernel 0 0 True True (- 12) 0) unbound_device =
     (- 12,
      unbound_device\<lparr>driver_data := Some \<lparr>tbtn_dev.handle = 7, input_dev = None\<rparr>\<rparr>,
      [Printk KERN_INFO ''tbtn: Device add called for %s'' [Arg_s ''MAT002A''],
       Devm_kzalloc True, Devm_input_allocate_device (Some fresh_input_dev),
       Sparse_keymap_setup tbtn_input_dev tbtn_keymap (- 12),
       Printk KERN_ERR ''tbtn: Failed to setup keymap: %d'' [Arg_d (- 12)]]) \<and>
   fst (tbtn_add (a_kernel 0 0 True False 0 0) unbound_device) = - 12 \<and>
   input_registered (snd (snd (tbtn_add (a_kernel 0 0 True False 0 0) unbound_device))) = []"
proof -
  let ?reg = "a_kernel 0 0 True True 0 (- 16)"
  let ?km = "a_kernel 0 0 True True (- 12) 0"
  let ?al = "a_kernel 0 0 True False 0 0"
  have reg: "tbtn_add ?reg unbound_device =
     (- 16,
      unbound_device\<lparr>driver_data := Some \<lparr>tbtn_dev.handle = 7, input_dev = Some tbtn_input_dev\<rparr>\<rparr>,
      [Printk KERN_INFO ''tbtn: Device add called for %s'' [Arg_s ''MAT002A''],
       Devm_kzalloc True, Devm_input_allocate_device (Some fresh_input_dev),
       Sparse_keymap_setup tbtn_input_dev tbtn_keymap 0,
       Input_register_device tbtn_input_dev (- 16),
       Printk KERN_ERR ''tbtn: Failed to register input device: %d'' [Arg_d (- 16)]])"
    by (simp add: tbtn_add_def a_kernel_def unbound_device_def fresh_input_dev_def
        tbtn_input_dev_def Let_def)
  have km: "tbtn_add ?km unbound_device =
     (- 12,
      unbound_device\<lparr>driver_data := Some \<lparr>tbtn_dev.handle = 7, input_dev = None\<rparr>\<rparr>,
      [Printk KERN_INFO ''tbtn: Device add called for %s'' [Arg_s ''MAT002A''],
       Devm_kzalloc True, Devm_input_allocate_device (Some fresh_input_dev),
       Sparse_keymap_setup tbtn_input_dev tbtn_keymap (- 12),
       Printk KERN_ERR ''tbtn: Failed to setup keymap: %d'' [Arg_d (- 12)]])"
    by (simp add: tbtn_add_def a_kernel_def unbound_device_def fresh_input_dev_def
        tbtn_input_dev_def Let_def)
  have al: "tbtn_add ?al unbound_device =
     (fst (tbtn_add ?al unbound_device), fst (snd (tbtn_add ?al unbound_device)),
      snd (snd (tbtn_add ?al unbound_device)))"
    by simp
  have c1: "sparse_keymap_setup ?reg d m \<le> 0" "input_register_device ?reg d \<le> 0"
    and c2: "sparse_keymap_setup ?km d m \<le> 0" "input_register_device ?km d \<le> 0"
    and c3: "sparse_keymap_setup ?al d m \<le> 0" "input_register_device ?al d \<le> 0"
    for d m
    by (simp_all add: a_kernel_def)
  have enomem: "Devm_kzalloc False \<in> set (snd (snd (tbtn_add ?al unbound_device)))"
    by (simp add: tbtn_add_def a_kernel_def)
  from bind_failure_aborts [OF c1 reg] bind_failure_aborts [OF c2 km]
    bind_failure_aborts [OF c3 al] reg km enomem
  show ?thesis
    by (simp add: ENOMEM_def)
qed

end
